theory Spec2Isabelle
  imports Main
begin

section \<open>The header \<^verbatim>\<open>support/magicleap/Servo2D/code/inc/Servo2D.h\<close>\<close>

text \<open>
  The header holds one class declaration and no function body. It is embedded as the
  declaration it is: every member of the class, in source order, with the specifiers written
  in the header (\<^verbatim>\<open>virtual\<close>, \<^verbatim>\<open>override\<close>, \<^verbatim>\<open>const\<close>, \<^verbatim>\<open>= delete\<close>),
  its parameter and return types, the access section it stands in, and the \<^verbatim>\<open>@return\<close>
  line of its documentation comment when it has one.
\<close>

subsection \<open>Declarations as data\<close>

datatype access = Public | Protected | Private

datatype cpp_type =
    TVoid
  | TInt
  | TBool
  | TFloat
  | TNamed string
  | TConst cpp_type
  | TPtr cpp_type
  | TLRef cpp_type
  | TRRef cpp_type

datatype member_kind = Constructor | Destructor | Assignment | Method

record member_function =
  fn_name :: string
  fn_kind :: member_kind
  fn_access :: access
  fn_return :: "cpp_type option"
  fn_params :: "cpp_type list"
  fn_virtual :: bool
  fn_override :: bool
  fn_const :: bool
  fn_deleted :: bool
  fn_doc_return :: "string option"

datatype initializer = Nullptr

record data_member =
  dm_name :: string
  dm_access :: access
  dm_type :: cpp_type
  dm_init :: "initializer option"

record class_decl =
  cls_name :: string
  cls_bases :: "(access \<times> string) list"
  cls_functions :: "member_function list"
  cls_data :: "data_member list"

subsection \<open>The members of Servo2D, lines 24 to 98\<close>

text \<open>Line 29: \<^verbatim>\<open>Servo2D();\<close>\<close>

definition Servo2D_ctor :: member_function where
  "Servo2D_ctor = \<lparr> fn_name = ''Servo2D'', fn_kind = Constructor, fn_access = Public,
     fn_return = None, fn_params = [], fn_virtual = False, fn_override = False,
     fn_const = False, fn_deleted = False, fn_doc_return = None \<rparr>"

text \<open>Line 34: \<^verbatim>\<open>virtual ~Servo2D();\<close>\<close>

definition Servo2D_dtor :: member_function where
  "Servo2D_dtor = \<lparr> fn_name = ''~Servo2D'', fn_kind = Destructor, fn_access = Public,
     fn_return = None, fn_params = [], fn_virtual = True, fn_override = False,
     fn_const = False, fn_deleted = False, fn_doc_return = None \<rparr>"

text \<open>Line 39: \<^verbatim>\<open>Servo2D(const Servo2D&) = delete;\<close>\<close>

definition Servo2D_copy_ctor :: member_function where
  "Servo2D_copy_ctor = \<lparr> fn_name = ''Servo2D'', fn_kind = Constructor, fn_access = Public,
     fn_return = None, fn_params = [TLRef (TConst (TNamed ''Servo2D''))], fn_virtual = False,
     fn_override = False, fn_const = False, fn_deleted = True, fn_doc_return = None \<rparr>"

text \<open>Line 44: \<^verbatim>\<open>Servo2D(Servo2D&&) = delete;\<close>\<close>

definition Servo2D_move_ctor :: member_function where
  "Servo2D_move_ctor = \<lparr> fn_name = ''Servo2D'', fn_kind = Constructor, fn_access = Public,
     fn_return = None, fn_params = [TRRef (TNamed ''Servo2D'')], fn_virtual = False,
     fn_override = False, fn_const = False, fn_deleted = True, fn_doc_return = None \<rparr>"

text \<open>Line 49: \<^verbatim>\<open>Servo2D& operator=(const Servo2D&) = delete;\<close>\<close>

definition Servo2D_copy_assign :: member_function where
  "Servo2D_copy_assign = \<lparr> fn_name = ''operator='', fn_kind = Assignment, fn_access = Public,
     fn_return = Some (TLRef (TNamed ''Servo2D'')),
     fn_params = [TLRef (TConst (TNamed ''Servo2D''))], fn_virtual = False,
     fn_override = False, fn_const = False, fn_deleted = True, fn_doc_return = None \<rparr>"

text \<open>Line 54: \<^verbatim>\<open>Servo2D& operator=(Servo2D&&) = delete;\<close>\<close>

definition Servo2D_move_assign :: member_function where
  "Servo2D_move_assign = \<lparr> fn_name = ''operator='', fn_kind = Assignment, fn_access = Public,
     fn_return = Some (TLRef (TNamed ''Servo2D'')),
     fn_params = [TRRef (TNamed ''Servo2D'')], fn_virtual = False,
     fn_override = False, fn_const = False, fn_deleted = True, fn_doc_return = None \<rparr>"

text \<open>Lines 57 to 61: \<^verbatim>\<open>int init() override;\<close>, documented
  \<^verbatim>\<open>@return - 0 on success, error code on failure.\<close>\<close>

definition Servo2D_init :: member_function where
  "Servo2D_init = \<lparr> fn_name = ''init'', fn_kind = Method, fn_access = Protected,
     fn_return = Some TInt, fn_params = [], fn_virtual = False, fn_override = True,
     fn_const = False, fn_deleted = False,
     fn_doc_return = Some ''0 on success, error code on failure.'' \<rparr>"

text \<open>Lines 63 to 67: \<^verbatim>\<open>int deInit() override;\<close>, with the same \<^verbatim>\<open>@return\<close> line.\<close>

definition Servo2D_deInit :: member_function where
  "Servo2D_deInit = \<lparr> fn_name = ''deInit'', fn_kind = Method, fn_access = Protected,
     fn_return = Some TInt, fn_params = [], fn_virtual = False, fn_override = True,
     fn_const = False, fn_deleted = False,
     fn_doc_return = Some ''0 on success, error code on failure.'' \<rparr>"

text \<open>Line 73: \<^verbatim>\<open>const glm::vec3 getInitialPrismSize() const;\<close>\<close>

definition Servo2D_getInitialPrismSize :: member_function where
  "Servo2D_getInitialPrismSize = \<lparr> fn_name = ''getInitialPrismSize'', fn_kind = Method,
     fn_access = Protected, fn_return = Some (TConst (TNamed ''glm::vec3'')), fn_params = [],
     fn_virtual = False, fn_override = False, fn_const = True, fn_deleted = False,
     fn_doc_return = None \<rparr>"

text \<open>Line 78: \<^verbatim>\<open>void createInitialPrism();\<close>\<close>

definition Servo2D_createInitialPrism :: member_function where
  "Servo2D_createInitialPrism = \<lparr> fn_name = ''createInitialPrism'', fn_kind = Method,
     fn_access = Protected, fn_return = Some TVoid, fn_params = [], fn_virtual = False,
     fn_override = False, fn_const = False, fn_deleted = False, fn_doc_return = None \<rparr>"

text \<open>Line 83: \<^verbatim>\<open>void spawnInitialScenes();\<close>\<close>

definition Servo2D_spawnInitialScenes :: member_function where
  "Servo2D_spawnInitialScenes = \<lparr> fn_name = ''spawnInitialScenes'', fn_kind = Method,
     fn_access = Protected, fn_return = Some TVoid, fn_params = [], fn_virtual = False,
     fn_override = False, fn_const = False, fn_deleted = False, fn_doc_return = None \<rparr>"

text \<open>Line 88: \<^verbatim>\<open>virtual bool updateLoop(float fDelta) override;\<close>\<close>

definition Servo2D_updateLoop :: member_function where
  "Servo2D_updateLoop = \<lparr> fn_name = ''updateLoop'', fn_kind = Method, fn_access = Protected,
     fn_return = Some TBool, fn_params = [TFloat], fn_virtual = True, fn_override = True,
     fn_const = False, fn_deleted = False, fn_doc_return = None \<rparr>"

text \<open>Line 93: \<^verbatim>\<open>virtual bool eventListener(lumin::ServerEvent* event) override;\<close>\<close>

definition Servo2D_eventListener :: member_function where
  "Servo2D_eventListener = \<lparr> fn_name = ''eventListener'', fn_kind = Method,
     fn_access = Protected, fn_return = Some TBool,
     fn_params = [TPtr (TNamed ''lumin::ServerEvent'')], fn_virtual = True,
     fn_override = True, fn_const = False, fn_deleted = False, fn_doc_return = None \<rparr>"

text \<open>Line 96: \<^verbatim>\<open>lumin::Prism* prism_ = nullptr;\<close>\<close>

definition Servo2D_prism :: data_member where
  "Servo2D_prism = \<lparr> dm_name = ''prism_'', dm_access = Private,
     dm_type = TPtr (TNamed ''lumin::Prism''), dm_init = Some Nullptr \<rparr>"

text \<open>Line 97: \<^verbatim>\<open>PrismSceneManager* prismSceneManager_ = nullptr;\<close>\<close>

definition Servo2D_prismSceneManager :: data_member where
  "Servo2D_prismSceneManager = \<lparr> dm_name = ''prismSceneManager_'', dm_access = Private,
     dm_type = TPtr (TNamed ''PrismSceneManager''), dm_init = Some Nullptr \<rparr>"

text \<open>Line 24: \<^verbatim>\<open>class Servo2D : public lumin::LandscapeApp\<close>, and its body.\<close>

definition Servo2D :: class_decl where
  "Servo2D = \<lparr> cls_name = ''Servo2D'',
     cls_bases = [(Public, ''lumin::LandscapeApp'')],
     cls_functions = [Servo2D_ctor, Servo2D_dtor, Servo2D_copy_ctor, Servo2D_move_ctor,
       Servo2D_copy_assign, Servo2D_move_assign, Servo2D_init, Servo2D_deInit,
       Servo2D_getInitialPrismSize, Servo2D_createInitialPrism, Servo2D_spawnInitialScenes,
       Servo2D_updateLoop, Servo2D_eventListener],
     cls_data = [Servo2D_prism, Servo2D_prismSceneManager] \<rparr>"

lemmas Servo2D_members =
  Servo2D_ctor_def Servo2D_dtor_def Servo2D_copy_ctor_def Servo2D_move_ctor_def
  Servo2D_copy_assign_def Servo2D_move_assign_def Servo2D_init_def Servo2D_deInit_def
  Servo2D_getInitialPrismSize_def Servo2D_createInitialPrism_def
  Servo2D_spawnInitialScenes_def Servo2D_updateLoop_def Servo2D_eventListener_def
  Servo2D_prism_def Servo2D_prismSceneManager_def

subsection \<open>Reading a declaration\<close>

text \<open>The member functions that are neither constructor, destructor nor assignment
  operator: for Servo2D, the seven of the \<^verbatim>\<open>protected:\<close> section.\<close>

definition declared_methods :: "class_decl \<Rightarrow> member_function list" where
  "declared_methods cls = filter (\<lambda>f. fn_kind f = Method) (cls_functions cls)"

text \<open>A data member whose type is a pointer to a named type other than the class that
  declares it.\<close>

definition externally_typed_pointer :: "class_decl \<Rightarrow> data_member \<Rightarrow> bool" where
  "externally_typed_pointer cls d =
     (case dm_type d of TPtr (TNamed n) \<Rightarrow> n \<noteq> cls_name cls | _ \<Rightarrow> False)"

subsection \<open>Copy and move\<close>

datatype special_member = CopyConstructor | MoveConstructor | CopyAssignment | MoveAssignment

text \<open>Which declaration of class \<open>c\<close> is which special member, by its parameter list.\<close>

fun declares_special :: "string \<Rightarrow> special_member \<Rightarrow> member_function \<Rightarrow> bool" where
  "declares_special c CopyConstructor f =
     (fn_kind f = Constructor \<and> fn_params f = [TLRef (TConst (TNamed c))])"
| "declares_special c MoveConstructor f =
     (fn_kind f = Constructor \<and> fn_params f = [TRRef (TNamed c)])"
| "declares_special c CopyAssignment f =
     (fn_kind f = Assignment \<and> fn_params f = [TLRef (TConst (TNamed c))])"
| "declares_special c MoveAssignment f =
     (fn_kind f = Assignment \<and> fn_params f = [TRRef (TNamed c)])"

datatype special_status = Deleted | UserDeclared | NotDeclared

definition special_status_of :: "class_decl \<Rightarrow> special_member \<Rightarrow> special_status" where
  "special_status_of cls s =
     (case find (declares_special (cls_name cls) s) (cls_functions cls) of
        None \<Rightarrow> NotDeclared
      | Some f \<Rightarrow> (if fn_deleted f then Deleted else UserDeclared))"

text \<open>An object of the class is the list of its data members with their values, in
  declaration order; both data members of Servo2D are pointers.\<close>

datatype pointer = Null | Addr nat | Indeterminate

type_synonym object = "(string \<times> pointer) list"

datatype cpp_error = Use_of_deleted_function

text \<open>A copy or move that selects a deleted function is ill-formed: there is no resulting
  object. A special member that is declared and not deleted, or left to the compiler, is
  modelled by the memberwise copy; Servo2D declares all four, so only the first equation
  is ever reached for it.\<close>

fun special_use :: "special_status \<Rightarrow> object \<Rightarrow> cpp_error + object" where
  "special_use Deleted src = Inl Use_of_deleted_function"
| "special_use UserDeclared src = Inr src"
| "special_use NotDeclared src = Inr src"

definition copy_construct :: "class_decl \<Rightarrow> object \<Rightarrow> cpp_error + object" where
  "copy_construct cls src = special_use (special_status_of cls CopyConstructor) src"

definition move_construct :: "class_decl \<Rightarrow> object \<Rightarrow> cpp_error + object" where
  "move_construct cls src = special_use (special_status_of cls MoveConstructor) src"

definition copy_assign :: "class_decl \<Rightarrow> object \<Rightarrow> object \<Rightarrow> cpp_error + object" where
  "copy_assign cls tgt src = special_use (special_status_of cls CopyAssignment) src"

definition move_assign :: "class_decl \<Rightarrow> object \<Rightarrow> object \<Rightarrow> cpp_error + object" where
  "move_assign cls tgt src = special_use (special_status_of cls MoveAssignment) src"

subsection \<open>Construction\<close>




section \<open>The commands of \<^verbatim>\<open>ports/gstplugin/README.md\<close>\<close>

text \<open>
  The README documents the plugin by shell commands, one fenced block each. A block is
  embedded as its physical lines; \<open>Continued s\<close> is a line that ends in a backslash (the
  shell's line continuation), \<open>s\<close> being the text before the backslash.
\<close>

datatype source_line = Line string | Continued string

subsection \<open>The fenced blocks, in the order of the file\<close>

text \<open>Build, line 6.\<close>

definition readme_build :: "source_line list" where
  "readme_build = [Line ''./mach build -r -p servo-gst-plugin'']"

text \<open>Install, lines 14 and 19.\<close>

definition readme_mkdir :: "source_line list" where
  "readme_mkdir = [Line ''mkdir target/gstplugins'']"

definition readme_install :: "source_line list" where
  "readme_install = [Line ''cp target/release/libgstservoplugin.* target/gstplugins'']"

text \<open>Run, lines 24 to 28.\<close>

definition readme_run :: "source_line list" where
  "readme_run =
     [Continued ''GST_PLUGIN_PATH=target/gstplugins '',
      Continued ''  gst-launch-1.0 servosrc '',
      Continued ''    ! queue '',
      Continued ''    ! videoflip video-direction=vert '',
      Line ''    ! autovideosink'']"

text \<open>Troubleshooting, lines 38 to 39 and 44 to 45.\<close>

definition readme_inspect_element :: "source_line list" where
  "readme_inspect_element =
     [Continued ''GST_PLUGIN_PATH=target/gstplugins '',
      Line ''  gst-inspect-1.0 servosrc'']"

definition readme_inspect_file :: "source_line list" where
  "readme_inspect_file =
     [Continued ''GST_PLUGIN_PATH=target/gstplugins '',
      Line ''  gst-inspect-1.0 target/gstplugins/libgstservoplugin.so'']"

text \<open>Lines 50, 55, 61, 66 and 71.\<close>

definition readme_clear_cache :: "source_line list" where
  "readme_clear_cache = [Line ''rm -r ~/.cache/gstreamer-1.0'']"

definition readme_library_path :: "source_line list" where
  "readme_library_path = [Line ''LD_LIBRARY_PATH=$PWD/support/linux/gstreamer/gst/lib'']"

definition readme_preload :: "source_line list" where
  "readme_preload = [Line ''LD_PRELOAD=$PWD/target/gstplugins/libgstservoplugin.so'']"

definition readme_scanner :: "source_line list" where
  "readme_scanner =
     [Line ''GST_PLUGIN_SCANNER=$PWD/support/linux/gstreamer/gst/libexec/gstreamer-1.0/gst-plugin-scanner'']"

definition readme_plugin_path :: "source_line list" where
  "readme_plugin_path =
     [Line ''GST_PLUGIN_PATH=$PWD/target/gstplugins/:$PWD/support/linux/gstreamer/gst/lib'']"

text \<open>Putting that all together, lines 76 to 83.\<close>

definition readme_all_together :: "source_line list" where
  "readme_all_together =
     [Continued ''GST_PLUGIN_SCANNER=$PWD/support/linux/gstreamer/gst/libexec/gstreamer-1.0/gst-plugin-scanner '',
      Continued ''LD_PRELOAD=$PWD/target/gstplugins/libgstservoplugin.so '',
      Continued ''GST_PLUGIN_PATH=$PWD/target/gstplugins/:$PWD/support/linux/gstreamer/gst/lib '',
      Continued ''LD_LIBRARY_PATH=$PWD/support/linux/gstreamer/gst/lib '',
      Continued ''  gst-launch-1.0 servosrc '',
      Continued ''    ! queue '',
      Continued ''    ! videoflip video-direction=vert '',
      Line ''    ! autovideosink'']"

definition readme_blocks :: "source_line list list" where
  "readme_blocks =
     [readme_build, readme_mkdir, readme_install, readme_run, readme_inspect_element,
      readme_inspect_file, readme_clear_cache, readme_library_path, readme_preload,
      readme_scanner, readme_plugin_path, readme_all_together]"

lemmas readme_block_defs =
  readme_build_def readme_mkdir_def readme_install_def readme_run_def
  readme_inspect_element_def readme_inspect_file_def readme_clear_cache_def
  readme_library_path_def readme_preload_def readme_scanner_def readme_plugin_path_def
  readme_all_together_def

subsection \<open>How the shell reads a block\<close>

text \<open>A backslash at the end of a line joins the line to the next one.\<close>

fun logical_lines :: "source_line list \<Rightarrow> string list" where
  "logical_lines [] = []"
| "logical_lines (Line s # ls) = s # logical_lines ls"
| "logical_lines (Continued s # ls) =
     (case logical_lines ls of [] \<Rightarrow> [s] | t # ts \<Rightarrow> (s @ t) # ts)"

text \<open>A line is split into words at blanks; \<open>w\<close> is the word read so far. None of the
  documented commands uses quotes.\<close>

fun split_words :: "string \<Rightarrow> string \<Rightarrow> string list" where
  "split_words w [] = (if w = [] then [] else [w])"
| "split_words w (c # cs) =
     (if c = CHR '' ''
      then (if w = [] then split_words [] cs else w # split_words [] cs)
      else split_words (w @ [c]) cs)"

definition name_start :: "char \<Rightarrow> bool" where
  "name_start c = (c \<in> set ''ABCDEFGHIJKLMNOPQRSTUVWXYZabcdefghijklmnopqrstuvwxyz_'')"

definition name_char :: "char \<Rightarrow> bool" where
  "name_char c = (name_start c \<or> c \<in> set ''0123456789'')"

fun is_name :: "string \<Rightarrow> bool" where
  "is_name [] = False"
| "is_name (c # cs) = (name_start c \<and> list_all name_char cs)"

text \<open>A word \<^verbatim>\<open>NAME=value\<close> is a variable assignment.\<close>

definition assignment_of :: "string \<Rightarrow> (string \<times> string) option" where
  "assignment_of w =
     (let n = takeWhile (\<lambda>c. c \<noteq> CHR ''='') w;
          r = dropWhile (\<lambda>c. c \<noteq> CHR ''='') w
      in if r \<noteq> [] \<and> is_name n then Some (n, tl r) else None)"

text \<open>A simple command: the assignments in front of it, which make up the environment
  the program is started in, then the program and its arguments. Only the words in front
  of the program are assignments.\<close>

record simple_command =
  cmd_env :: "(string \<times> string) list"
  cmd_words :: "string list"

fun parse_command :: "string list \<Rightarrow> simple_command" where
  "parse_command [] = \<lparr> cmd_env = [], cmd_words = [] \<rparr>"
| "parse_command (w # ws) =
     (case assignment_of w of
        Some a \<Rightarrow> (let c = parse_command ws in c \<lparr> cmd_env := a # cmd_env c \<rparr>)
      | None \<Rightarrow> \<lparr> cmd_env = [], cmd_words = w # ws \<rparr>)"

definition commands_of :: "source_line list \<Rightarrow> simple_command list" where
  "commands_of block = map (\<lambda>l. parse_command (split_words [] l)) (logical_lines block)"

definition readme_commands :: "simple_command list" where
  "readme_commands = concat (map commands_of readme_blocks)"

definition program :: "simple_command \<Rightarrow> string option" where
  "program c = (case cmd_words c of [] \<Rightarrow> None | p # args \<Rightarrow> Some p)"

definition arguments :: "simple_command \<Rightarrow> string list" where
  "arguments c = (case cmd_words c of [] \<Rightarrow> [] | p # args \<Rightarrow> args)"









subsection \<open>How \<^verbatim>\<open>gst-launch-1.0\<close> reads its arguments\<close>

text \<open>The arguments are a pipeline description: elements separated by the word \<^verbatim>\<open>!\<close>,
  which links the element before it to the element after it. An element is the name of
  its factory followed by its properties.\<close>

fun split_links :: "string list \<Rightarrow> string list list" where
  "split_links [] = [[]]"
| "split_links (w # ws) =
     (if w = ''!'' then [] # split_links ws
      else (case split_links ws of [] \<Rightarrow> [[w]] | e # es \<Rightarrow> (w # e) # es))"

definition pipeline_elements :: "string list \<Rightarrow> string list" where
  "pipeline_elements args =
     concat (map (\<lambda>e. case e of [] \<Rightarrow> [] | n # props \<Rightarrow> [n]) (split_links args))"

section \<open>Properties of the declaration\<close>

text \<open>
  C5. The class declares exactly two data members, in this order: \<^verbatim>\<open>prism_\<close> of type
  \<^verbatim>\<open>lumin::Prism*\<close> and \<^verbatim>\<open>prismSceneManager_\<close> of type \<^verbatim>\<open>PrismSceneManager*\<close>. Both are
  pointers to types the header does not declare itself, and the class has no other data
  member.
\<close>

theorem Servo2D_data_members:
  "map (\<lambda>d. (dm_name d, dm_type d)) (cls_data Servo2D) =
     [(''prism_'', TPtr (TNamed ''lumin::Prism'')),
      (''prismSceneManager_'', TPtr (TNamed ''PrismSceneManager''))]
   \<and> length (cls_data Servo2D) = 2
   \<and> list_all (externally_typed_pointer Servo2D) (cls_data Servo2D)"
  by (simp add: Servo2D_def Servo2D_prism_def Servo2D_prismSceneManager_def
      externally_typed_pointer_def)

text \<open>The seven methods as the header declares them: parameter types and return type,
  then the specifiers \<^verbatim>\<open>virtual\<close>, \<^verbatim>\<open>override\<close> and \<^verbatim>\<open>const\<close> as written.\<close>

lemma Servo2D_declared_methods:
  "map (\<lambda>f. (fn_name f, fn_params f, fn_return f)) (declared_methods Servo2D) =
     [(''init'', [], Some TInt),
      (''deInit'', [], Some TInt),
      (''getInitialPrismSize'', [], Some (TConst (TNamed ''glm::vec3''))),
      (''createInitialPrism'', [], Some TVoid),
      (''spawnInitialScenes'', [], Some TVoid),
      (''updateLoop'', [TFloat], Some TBool),
      (''eventListener'', [TPtr (TNamed ''lumin::ServerEvent'')], Some TBool)]
   \<and> map (\<lambda>f. (fn_virtual f, fn_override f, fn_const f)) (declared_methods Servo2D) =
     [(False, True, False), (False, True, False), (False, False, True),
      (False, False, False), (False, False, False), (True, True, False),
      (True, True, False)]"
  by (simp add: Servo2D_def Servo2D_members declared_methods_def)

text \<open>
  C4. The copy constructor, the move constructor, the copy assignment operator and the
  move assignment operator of Servo2D are all deleted, so no Servo2D object can be copied
  or moved, by construction or by assignment: each of the four operations is ill-formed
  for every object.
\<close>

theorem Servo2D_not_copyable_not_movable:
  "map (special_status_of Servo2D)
       [CopyConstructor, MoveConstructor, CopyAssignment, MoveAssignment] =
     [Deleted, Deleted, Deleted, Deleted]
   \<and> copy_construct Servo2D src = Inl Use_of_deleted_function
   \<and> move_construct Servo2D src = Inl Use_of_deleted_function
   \<and> copy_assign Servo2D tgt src = Inl Use_of_deleted_function
   \<and> move_assign Servo2D tgt src = Inl Use_of_deleted_function"
  by (simp add: Servo2D_def Servo2D_members special_status_of_def copy_construct_def
      move_construct_def copy_assign_def move_assign_def)


section \<open>Properties of the documented commands\<close>

text \<open>What the shell makes of the twelve blocks: the program each command starts, or none
  when the line only assigns a variable.\<close>

lemma readme_programs:
  "map program readme_commands =
     [Some ''./mach'', Some ''mkdir'', Some ''cp'', Some ''gst-launch-1.0'',
      Some ''gst-inspect-1.0'', Some ''gst-inspect-1.0'', Some ''rm'', None, None, None,
      None, Some ''gst-launch-1.0'']"
  by code_simp

text \<open>
  C8. The plugin is run by \<^verbatim>\<open>gst-launch-1.0\<close>, in the Run block and in the block that puts
  all settings together, and both times the pipeline is \<^verbatim>\<open>servosrc\<close>, \<^verbatim>\<open>queue\<close>,
  \<^verbatim>\<open>videoflip\<close>, \<^verbatim>\<open>autovideosink\<close>, linked in that order and with no other element; no
  other documented command starts \<^verbatim>\<open>gst-launch-1.0\<close>. The plugin is inspected by
  \<^verbatim>\<open>gst-inspect-1.0\<close>, given the element \<^verbatim>\<open>servosrc\<close> or the plugin file.
\<close>

theorem readme_launch_pipeline:
  "map (\<lambda>c. (program c, pipeline_elements (arguments c))) (commands_of readme_run) =
     [(Some ''gst-launch-1.0'', [''servosrc'', ''queue'', ''videoflip'', ''autovideosink''])]
   \<and> map (\<lambda>c. split_links (arguments c)) (commands_of readme_run) =
     [[[''servosrc''], [''queue''], [''videoflip'', ''video-direction=vert''],
       [''autovideosink'']]]
   \<and> map (\<lambda>c. (program c, pipeline_elements (arguments c)))
       (commands_of readme_all_together) =
     [(Some ''gst-launch-1.0'', [''servosrc'', ''queue'', ''videoflip'', ''autovideosink''])]
   \<and> map (\<lambda>c. pipeline_elements (arguments c))
       (filter (\<lambda>c. program c = Some ''gst-launch-1.0'') readme_commands) =
     [[''servosrc'', ''queue'', ''videoflip'', ''autovideosink''],
      [''servosrc'', ''queue'', ''videoflip'', ''autovideosink'']]
   \<and> map (\<lambda>c. (program c, arguments c)) (commands_of readme_inspect_element) =
     [(Some ''gst-inspect-1.0'', [''servosrc''])]
   \<and> map (\<lambda>c. (program c, arguments c)) (commands_of readme_inspect_file) =
     [(Some ''gst-inspect-1.0'', [''target/gstplugins/libgstservoplugin.so''])]"
  by code_simp



end
